theory Spec2Isabelle
  imports Complex_Main
begin

section \<open>Data model (types/performance)\<close>

text \<open>
  JavaScript numbers are modelled as reals; the non-finite values (Infinity, NaN) are
  not reals, and where the source produces one the model says so explicitly. The
  scoring formulas round the result of every arithmetic operator, as doubles do;
  elsewhere arithmetic is exact.
  An optional field of an interface is an \<open>option\<close>; \<open>None\<close> is the absent field.
\<close>

datatype TaskType =
    TappingSpeed
  | StroopTest
  | ReactionTime
  | TowerOfHanoi
  | SpatialMemory
  | DecisionTask
  | SoundDiscrimination

datatype DoorChoice = Left | Right

datatype RewardType = High | Low | NoReward

record Trial =
  trial :: int
  choice :: DoorChoice
  reward :: real
  rewardType :: RewardType
  reactionTime :: int

text \<open>
  \<open>TaskMetrics\<close>: the numeric fields and the decision task's trial log. A numeric
  field holds \<open>None\<close> when it is absent or NaN (both are falsy, and JSON stores
  neither as a number). The fields \<open>reactionTimes\<close>, \<open>accuracyByFrequency\<close> and
  \<open>responses\<close> are neither read nor written by the functions below and are left out.
\<close>

record TaskMetrics =
  numberOfTaps :: "real option"
  duration :: "real option"
  correctAnswers :: "real option"
  incorrectAnswers :: "real option"
  averageReactionTime :: "real option"
  moves :: "real option"
  solveTime :: "real option"
  minMoves :: "real option"
  correctMatches :: "real option"
  totalAttempts :: "real option"
  sequenceLength :: "real option"
  leftDoorChoices :: "real option"
  rightDoorChoices :: "real option"
  totalReward :: "real option"
  adaptationRate :: "real option"
  riskTakingScore :: "real option"
  learningScore :: "real option"
  correctIdentifications :: "real option"
  incorrectIdentifications :: "real option"
  averageResponseTime :: "real option"
  choices :: "Trial list option"

definition noMetrics :: TaskMetrics where
  "noMetrics = \<lparr> numberOfTaps = None, duration = None, correctAnswers = None,
     incorrectAnswers = None, averageReactionTime = None, moves = None, solveTime = None,
     minMoves = None, correctMatches = None, totalAttempts = None, sequenceLength = None,
     leftDoorChoices = None, rightDoorChoices = None, totalReward = None,
     adaptationRate = None, riskTakingScore = None, learningScore = None,
     correctIdentifications = None, incorrectIdentifications = None,
     averageResponseTime = None, choices = None \<rparr>"

section \<open>Scoring (utils/scoring)\<close>

text \<open>\<open>!x\<close> on an optional number: true when the field is absent or is 0.\<close>

definition falsy :: "real option \<Rightarrow> bool" where
  "falsy x = (case x of None \<Rightarrow> True | Some v \<Rightarrow> v = 0)"

text \<open>\<open>Math.round\<close>: the nearest integer, halves going up.\<close>

definition Math_round :: "real \<Rightarrow> real" where
  "Math_round x = of_int \<lfloor>x + 1 / 2\<rfloor>"

text \<open>
  Arithmetic of the scoring formulas. The numbers of the source are IEEE doubles, and
  each operator \<open>+\<close>, \<open>-\<close>, \<open>*\<close>, \<open>/\<close> returns its exact result rounded to a
  double. The formulas take this rounding as a parameter \<open>fl\<close> and apply it to the
  exact result of every operator; comparisons, \<open>Math.min\<close>, \<open>Math.max\<close> and
  \<open>Math.round\<close> are exact. Exact arithmetic is the instance where \<open>fl\<close> is the
  identity. A result beyond the largest double is not represented.

  Rounding to the nearest double is monotone and leaves 0 alone; the properties
  proved for every rounding need no more than that.
\<close>

definition rounding :: "(real \<Rightarrow> real) \<Rightarrow> bool" where
  "rounding fl \<longleftrightarrow> (\<forall>x y. x \<le> y \<longrightarrow> fl x \<le> fl y) \<and> fl 0 = 0"

text \<open>
  The score a formula returns when the divisor of its quotient has rounded to zero,
  for a numerator \<open>n\<close> other than 0 and the exact value \<open>d\<close> that rounded to the zero
  divisor (the zero has the sign of \<open>d\<close>, and is positive when \<open>d\<close> is 0). The
  quotient is then an infinity, which every later operation keeps: plus infinity ends
  as \<open>Math.min(Infinity, 100)\<close>, that is 100; minus infinity is returned as it is,
  which is \<open>None\<close> here.
\<close>

definition scoreOfInfiniteQuotient :: "real \<Rightarrow> real \<Rightarrow> real option" where
  "scoreOfInfiniteQuotient n d =
     (if (n > 0 \<and> d \<ge> 0) \<or> (n < 0 \<and> d < 0) then Some 100 else None)"

text \<open>
  The value of the local variable \<open>score\<close> of \<open>calculateTappingScore\<close>, as a
  function of \<open>tapsPerSecond\<close>: the chain of \<open>if\<close>/\<open>else if\<close> in source order.
\<close>

definition tappingScore :: "(real \<Rightarrow> real) \<Rightarrow> real \<Rightarrow> real" where
  "tappingScore fl tapsPerSecond =
     (if tapsPerSecond \<ge> 9 then fl (95 + min 5 (fl (fl (tapsPerSecond - 9) * 2)))
      else if tapsPerSecond \<ge> 7 then fl (85 + fl (fl (fl (tapsPerSecond - 7) / 2) * 10))
      else if tapsPerSecond \<ge> 5 then fl (70 + fl (fl (fl (tapsPerSecond - 5) / 2) * 15))
      else if tapsPerSecond \<ge> 3 then fl (50 + fl (fl (fl (tapsPerSecond - 3) / 2) * 20))
      else if tapsPerSecond \<ge> 1 then fl (20 + fl (fl (fl (tapsPerSecond - 1) / 2) * 30))
      else fl (tapsPerSecond * 20))"


text \<open>
  Each formula returns \<open>Some\<close> of the number the source returns, and \<open>None\<close> where
  the source returns minus infinity.
\<close>

definition calculateTappingScore :: "(real \<Rightarrow> real) \<Rightarrow> TaskMetrics \<Rightarrow> real option" where
  "calculateTappingScore fl m =
     (if falsy (numberOfTaps m) \<or> falsy (duration m) then Some 0
      else
        let seconds = fl (the (duration m) / 1000) in
        if seconds = 0
        then scoreOfInfiniteQuotient (the (numberOfTaps m)) (the (duration m) / 1000)
        else
          let tapsPerSecond = fl (the (numberOfTaps m) / seconds);
              score = tappingScore fl tapsPerSecond
          in Some (min (Math_round score) 100))"

definition calculateStroopScore :: "(real \<Rightarrow> real) \<Rightarrow> TaskMetrics \<Rightarrow> real option" where
  "calculateStroopScore fl m =
     (if falsy (correctAnswers m) \<or> falsy (incorrectAnswers m) \<or> falsy (averageReactionTime m)
      then Some 0
      else
        let answers = fl (the (correctAnswers m) + the (incorrectAnswers m)) in
        if answers = 0
        then scoreOfInfiniteQuotient (the (correctAnswers m))
               (the (correctAnswers m) + the (incorrectAnswers m))
        else
          let accuracy = fl (the (correctAnswers m) / answers);
              speedBonus = max 0 (fl (fl (2000 - the (averageReactionTime m)) / 20))
          in Some (min (Math_round (fl (fl (accuracy * 70) + speedBonus))) 100))"

definition calculateReactionTimeScore :: "(real \<Rightarrow> real) \<Rightarrow> TaskMetrics \<Rightarrow> real option" where
  "calculateReactionTimeScore fl m =
     (if falsy (averageReactionTime m) then Some 0
      else
        let baseScore = max 0 (fl (fl (1000 - the (averageReactionTime m)) / 10))
        in Some (min (Math_round baseScore) 100))"

definition calculateTowerOfHanoiScore :: "(real \<Rightarrow> real) \<Rightarrow> TaskMetrics \<Rightarrow> real option" where
  "calculateTowerOfHanoiScore fl m =
     (if falsy (moves m) \<or> falsy (solveTime m) \<or> falsy (minMoves m) then Some 0
      else
        let efficiency = fl (the (minMoves m) / the (moves m));
            timeBonus = max 0 (fl (fl (120000 - the (solveTime m)) / 1200))
        in Some (min (Math_round (fl (fl (efficiency * 60) + timeBonus))) 100))"

definition calculateSpatialMemoryScore :: "(real \<Rightarrow> real) \<Rightarrow> TaskMetrics \<Rightarrow> real option" where
  "calculateSpatialMemoryScore fl m =
     (if falsy (correctMatches m) \<or> falsy (totalAttempts m) \<or> falsy (sequenceLength m)
      then Some 0
      else
        let accuracy = fl (the (correctMatches m) / the (totalAttempts m));
            lengthBonus = fl (the (sequenceLength m) * 5)
        in Some (min (Math_round (fl (fl (accuracy * 70) + lengthBonus))) 100))"

definition calculateDecisionTaskScore :: "(real \<Rightarrow> real) \<Rightarrow> TaskMetrics \<Rightarrow> real option" where
  "calculateDecisionTaskScore fl m =
     (if falsy (totalReward m) \<or> falsy (adaptationRate m) \<or> falsy (riskTakingScore m)
         \<or> falsy (learningScore m)
      then Some 0
      else
        let rewardScore = min (fl (the (totalReward m) / 10)) 40;
            adaptationScore = fl (the (adaptationRate m) * 30);
            riskScore = fl (the (riskTakingScore m) * 15);
            learningScorePoints = fl (the (learningScore m) * 15)
        in Some (min (Math_round
                   (fl (fl (fl (rewardScore + adaptationScore) + riskScore)
                          + learningScorePoints))) 100))"

definition calculateSoundDiscriminationScore ::
  "(real \<Rightarrow> real) \<Rightarrow> TaskMetrics \<Rightarrow> real option" where
  "calculateSoundDiscriminationScore fl m =
     (if falsy (correctIdentifications m) \<or> falsy (incorrectIdentifications m)
         \<or> falsy (averageResponseTime m)
      then Some 0
      else
        let identifications =
              fl (the (correctIdentifications m) + the (incorrectIdentifications m)) in
        if identifications = 0
        then scoreOfInfiniteQuotient (the (correctIdentifications m))
               (the (correctIdentifications m) + the (incorrectIdentifications m))
        else
          let accuracy = fl (the (correctIdentifications m) / identifications);
              speedBonus = max 0 (fl (fl (3000 - the (averageResponseTime m)) / 30))
          in Some (min (Math_round (fl (fl (accuracy * 80) + speedBonus))) 100))"

text \<open>
  The \<open>switch\<close> of \<open>calculateScore\<close>; its \<open>default\<close> branch is unreachable for a
  value of the closed type \<open>TaskType\<close>.
\<close>

fun calculateScore :: "(real \<Rightarrow> real) \<Rightarrow> TaskType \<Rightarrow> TaskMetrics \<Rightarrow> real option" where
  "calculateScore fl TappingSpeed m = calculateTappingScore fl m"
| "calculateScore fl StroopTest m = calculateStroopScore fl m"
| "calculateScore fl ReactionTime m = calculateReactionTimeScore fl m"
| "calculateScore fl TowerOfHanoi m = calculateTowerOfHanoiScore fl m"
| "calculateScore fl SpatialMemory m = calculateSpatialMemoryScore fl m"
| "calculateScore fl DecisionTask m = calculateDecisionTaskScore fl m"
| "calculateScore fl SoundDiscrimination m = calculateSoundDiscriminationScore fl m"

text \<open>
  \<open>calculateOverallScore\<close>: the record of scores is an association list (an
  object's own properties in order), \<open>Object.values\<close> its second components, and
  \<open>reduce\<close> a left fold from 0 whose every addition is rounded. The length of an
  array is an integer and exact.
\<close>

definition Object_values :: "('k \<times> 'v) list \<Rightarrow> 'v list" where
  "Object_values obj = map snd obj"

definition calculateOverallScore :: "(real \<Rightarrow> real) \<Rightarrow> ('k \<times> real) list \<Rightarrow> real" where
  "calculateOverallScore fl scores =
     (let values = filter (\<lambda>score. score > 0) (Object_values scores)
      in if length values = 0 then 0
         else Math_round
                (fl (foldl (\<lambda>sum score. fl (sum + score)) 0 values / real (length values))))"

text \<open>The metric fields each formula reads, in the order of its guard.\<close>

fun requiredMetrics :: "TaskType \<Rightarrow> (TaskMetrics \<Rightarrow> real option) list" where
  "requiredMetrics TappingSpeed = [numberOfTaps, duration]"
| "requiredMetrics StroopTest = [correctAnswers, incorrectAnswers, averageReactionTime]"
| "requiredMetrics ReactionTime = [averageReactionTime]"
| "requiredMetrics TowerOfHanoi = [moves, solveTime, minMoves]"
| "requiredMetrics SpatialMemory = [correctMatches, totalAttempts, sequenceLength]"
| "requiredMetrics DecisionTask = [totalReward, adaptationRate, riskTakingScore, learningScore]"
| "requiredMetrics SoundDiscrimination =
     [correctIdentifications, incorrectIdentifications, averageResponseTime]"

subsection \<open>The scoring formulas as the specification states them\<close>

text \<open>
  The pre-rounding value of each formula in the specification's words (section 4.1),
  evaluated in the arithmetic \<open>fl\<close>, to be compared with what the source computes.
  The tapping formula is given there by disjoint rate intervals.
\<close>

definition specTappingPiecewise :: "(real \<Rightarrow> real) \<Rightarrow> real \<Rightarrow> real" where
  "specTappingPiecewise fl rate =
     (if rate \<ge> 9 then fl (95 + min 5 (fl (fl (rate - 9) * 2)))
      else if 7 \<le> rate \<and> rate < 9 then fl (85 + fl (fl (fl (rate - 7) / 2) * 10))
      else if 5 \<le> rate \<and> rate < 7 then fl (70 + fl (fl (fl (rate - 5) / 2) * 15))
      else if 3 \<le> rate \<and> rate < 5 then fl (50 + fl (fl (fl (rate - 3) / 2) * 20))
      else if 1 \<le> rate \<and> rate < 3 then fl (20 + fl (fl (fl (rate - 1) / 2) * 30))
      else fl (rate * 20))"

fun specRawScore :: "(real \<Rightarrow> real) \<Rightarrow> TaskType \<Rightarrow> TaskMetrics \<Rightarrow> real" where
  "specRawScore fl TappingSpeed m =
     specTappingPiecewise fl (fl (the (numberOfTaps m) / fl (the (duration m) / 1000)))"
| "specRawScore fl StroopTest m =
     fl (fl (fl (the (correctAnswers m)
                   / fl (the (correctAnswers m) + the (incorrectAnswers m))) * 70)
         + max 0 (fl (fl (2000 - the (averageReactionTime m)) / 20)))"
| "specRawScore fl ReactionTime m =
     max 0 (fl (fl (1000 - the (averageReactionTime m)) / 10))"
| "specRawScore fl TowerOfHanoi m =
     fl (fl (fl (the (minMoves m) / the (moves m)) * 60)
         + max 0 (fl (fl (120000 - the (solveTime m)) / 1200)))"
| "specRawScore fl SpatialMemory m =
     fl (fl (fl (the (correctMatches m) / the (totalAttempts m)) * 70)
         + fl (the (sequenceLength m) * 5))"
| "specRawScore fl DecisionTask m =
     fl (fl (fl (min (fl (the (totalReward m) / 10)) 40 + fl (the (adaptationRate m) * 30))
             + fl (the (riskTakingScore m) * 15))
         + fl (the (learningScore m) * 15))"
| "specRawScore fl SoundDiscrimination m =
     fl (fl (fl (the (correctIdentifications m)
                   / fl (the (correctIdentifications m) + the (incorrectIdentifications m))) * 80)
         + max 0 (fl (fl (3000 - the (averageResponseTime m)) / 30)))"

text \<open>
  Whether the divisor of the formula's rate or accuracy rounds to zero, so that the
  raw value is an infinity. In exact arithmetic this does not happen for positive
  metrics.
\<close>

fun divisorVanishes :: "(real \<Rightarrow> real) \<Rightarrow> TaskType \<Rightarrow> TaskMetrics \<Rightarrow> bool" where
  "divisorVanishes fl TappingSpeed m = (fl (the (duration m) / 1000) = 0)"
| "divisorVanishes fl StroopTest m =
     (fl (the (correctAnswers m) + the (incorrectAnswers m)) = 0)"
| "divisorVanishes fl SoundDiscrimination m =
     (fl (the (correctIdentifications m) + the (incorrectIdentifications m)) = 0)"
| "divisorVanishes fl ReactionTime m = False"
| "divisorVanishes fl TowerOfHanoi m = False"
| "divisorVanishes fl SpatialMemory m = False"
| "divisorVanishes fl DecisionTask m = False"

text \<open>
  A metrics bag is valid for a task when no metric its formula reads is negative
  (an absent metric is allowed). Positive counts and durations, and derived
  decision-task metrics in the unit interval, are valid in this sense.
\<close>

definition validMetrics :: "TaskType \<Rightarrow> TaskMetrics \<Rightarrow> bool" where
  "validMetrics tt m =
     list_all (\<lambda>f. case f m of None \<Rightarrow> True | Some v \<Rightarrow> 0 \<le> v) (requiredMetrics tt)"

definition anyFalsy :: "TaskType \<Rightarrow> TaskMetrics \<Rightarrow> bool" where
  "anyFalsy tt m = list_ex (\<lambda>f. falsy (f m)) (requiredMetrics tt)"

section \<open>Decision task (app/tasks/decision-task)\<close>

datatype GameState = Ready | Playing | RewardShown | Frustration | ContinuePrompt | Finished

record GamePhase =
  name :: string
  startTrial :: int
  endTrial :: int
  leftProbability :: real
  rightProbability :: real

text \<open>The component's state variables that the game logic reads and writes.\<close>

record Game =
  gameState :: GameState
  currentTrial :: int
  totalReward_state :: real
  trials :: "Trial list"
  lastReward :: "(real \<times> RewardType) option"
  startTime :: int

definition totalTrials :: int where
  "totalTrials = 50"

definition highReward :: real where
  "highReward = 10"

definition lowReward :: real where
  "lowReward = 2"

definition gamePhases :: "GamePhase list" where
  "gamePhases =
     [ \<lparr> name = ''Initial Learning'', startTrial = 1, endTrial = 7,
         leftProbability = 8 / 10, rightProbability = 2 / 10 \<rparr>,
       \<lparr> name = ''Probability Reversal'', startTrial = 8, endTrial = 30,
         leftProbability = 3 / 10, rightProbability = 7 / 10 \<rparr>,
       \<lparr> name = ''Frustration Period'', startTrial = 31, endTrial = 40,
         leftProbability = 1 / 10, rightProbability = 1 / 10 \<rparr>,
       \<lparr> name = ''Recovery'', startTrial = 41, endTrial = 50,
         leftProbability = 6 / 10, rightProbability = 4 / 10 \<rparr> ]"

definition getCurrentPhase :: "int \<Rightarrow> GamePhase" where
  "getCurrentPhase t =
     (case find (\<lambda>phase. t \<ge> startTrial phase \<and> t \<le> endTrial phase) gamePhases of
        Some phase \<Rightarrow> phase
      | None \<Rightarrow> gamePhases ! 0)"

text \<open>
  The reward block of \<open>handleDoorChoice\<close>. \<open>rnd i\<close> is the value of the
  \<open>i\<close>-th call of \<open>Math.random()\<close> made during the invocation, counted from 0: the
  frustration branch makes a second call only after the first fell below 0.1.
\<close>

definition resolveReward :: "int \<Rightarrow> DoorChoice \<Rightarrow> (nat \<Rightarrow> real) \<Rightarrow> real \<times> RewardType" where
  "resolveReward t c rnd =
     (let phase = getCurrentPhase t in
      if t \<ge> 31 \<and> t \<le> 40 then
        (let random = rnd 0 in
         if random < 1 / 10 then
           (let reward =
                  (if c = Left
                   then (if rnd 1 < leftProbability phase then highReward else lowReward)
                   else (if rnd 1 < rightProbability phase then highReward else lowReward))
            in (reward, if reward = highReward then High else Low))
         else (0, NoReward))
      else
        (let random = rnd 0;
             probability = (if c = Left then leftProbability phase else rightProbability phase)
         in if random < probability then (highReward, High) else (lowReward, Low)))"

text \<open>
  \<open>handleDoorChoice\<close>: the state after the queued state updates are applied.
  \<open>now\<close> is the value of \<open>Date.now()\<close>. The animations and the timer that later
  advances \<open>currentTrial\<close> are not part of the model.
\<close>

definition handleDoorChoice :: "Game \<Rightarrow> DoorChoice \<Rightarrow> (nat \<Rightarrow> real) \<Rightarrow> int \<Rightarrow> Game" where
  "handleDoorChoice g c rnd now =
     (if gameState g \<noteq> Playing then g
      else
        let reactionTime' = now - startTime g;
            (reward', rewardType') = resolveReward (currentTrial g) c rnd;
            trial' = \<lparr> trial = currentTrial g, choice = c, reward = reward',
                       rewardType = rewardType', reactionTime = reactionTime' \<rparr>
        in g \<lparr> trials := trials g @ [trial'],
               totalReward_state := totalReward_state g + reward',
               lastReward := Some (reward', rewardType'),
               gameState := RewardShown \<rparr>)"

text \<open>
  Division of two numbers where the divisor may be 0: JavaScript then yields NaN or
  an infinity, which is \<open>None\<close> here.
\<close>

definition divide_js :: "real \<Rightarrow> real \<Rightarrow> real option" where
  "divide_js a b = (if b = 0 then None else Some (a / b))"

definition phaseTransitions :: "int list" where
  "phaseTransitions = [8, 31, 41]"

text \<open>
  The body of the \<open>forEach\<close> callback of \<open>calculateMetrics\<close>, as a function of the
  accumulator \<open>adaptationScore\<close> it updates.
\<close>

definition adaptationStep :: "Trial list \<Rightarrow> real \<Rightarrow> int \<Rightarrow> real" where
  "adaptationStep ts adaptationScore transitionTrial =
     (let beforeTrials =
            filter (\<lambda>t. trial t \<ge> transitionTrial - 3 \<and> trial t < transitionTrial) ts;
          afterTrials =
            filter (\<lambda>t. trial t \<ge> transitionTrial \<and> trial t < transitionTrial + 3) ts
      in if length beforeTrials > 0 \<and> length afterTrials > 0 then
           (let beforeLeftRate =
                  real (length (filter (\<lambda>t. choice t = Left) beforeTrials))
                    / real (length beforeTrials);
                afterLeftRate =
                  real (length (filter (\<lambda>t. choice t = Left) afterTrials))
                    / real (length afterTrials);
                adaptationChange = \<bar>afterLeftRate - beforeLeftRate\<bar>
            in adaptationScore + adaptationChange)
         else adaptationScore)"

definition calculateMetrics :: "Game \<Rightarrow> TaskMetrics" where
  "calculateMetrics g =
     (let ts = trials g;
          leftChoices = length (filter (\<lambda>t. choice t = Left) ts);
          rightChoices = length (filter (\<lambda>t. choice t = Right) ts);
          adaptationScore =
            foldl (adaptationStep ts) 0 phaseTransitions / real (length phaseTransitions);
          frustrationTrials = filter (\<lambda>t. trial t \<ge> 31 \<and> trial t \<le> 40) ts;
          riskTakingScore' =
            (if length frustrationTrials > 0
             then real (length (filter (\<lambda>t. choice t = Left) frustrationTrials))
                    / real (length frustrationTrials)
             else 1 / 2);
          earlyTrials = take 10 ts;
          lateTrials = drop (length ts - 10) ts;
          earlyReward =
            divide_js (foldl (\<lambda>sum t. sum + reward t) 0 earlyTrials) (real (length earlyTrials));
          lateReward =
            divide_js (foldl (\<lambda>sum t. sum + reward t) 0 lateTrials) (real (length lateTrials));
          learningScore' =
            (case (lateReward, earlyReward) of
               (Some late, Some early) \<Rightarrow> Some (max 0 ((late - early) / highReward))
             | _ \<Rightarrow> None)
      in noMetrics \<lparr> leftDoorChoices := Some (real leftChoices),
                     rightDoorChoices := Some (real rightChoices),
                     totalReward := Some (totalReward_state g),
                     adaptationRate := Some adaptationScore,
                     riskTakingScore := Some riskTakingScore',
                     learningScore := learningScore',
                     choices := Some ts \<rparr>)"

subsection \<open>The decision task as the specification states it\<close>

text \<open>
  The probability table of section 4.2 and the per-trial reward rule in the
  specification's words.
\<close>

definition specProbability :: "int \<Rightarrow> DoorChoice \<Rightarrow> real" where
  "specProbability t c =
     (if 1 \<le> t \<and> t \<le> 7 then (if c = Left then 8 / 10 else 2 / 10)
      else if 8 \<le> t \<and> t \<le> 30 then (if c = Left then 3 / 10 else 7 / 10)
      else if 31 \<le> t \<and> t \<le> 40 then 1 / 10
      else (if c = Left then 6 / 10 else 4 / 10))"

definition specReward :: "int \<Rightarrow> DoorChoice \<Rightarrow> (nat \<Rightarrow> real) \<Rightarrow> real \<times> RewardType" where
  "specReward t c rnd =
     (if 31 \<le> t \<and> t \<le> 40 then
        (if rnd 0 < 1 / 10
         then (if rnd 1 < specProbability t c then (10, High) else (2, Low))
         else (0, NoReward))
      else (if rnd 0 < specProbability t c then (10, High) else (2, Low)))"

text \<open>
  The absolute difference of the fractions of left choices around a transition, and
  whether the source skips the transition.
\<close>

definition leftRate :: "Trial list \<Rightarrow> real" where
  "leftRate ts = real (length (filter (\<lambda>t. choice t = Left) ts)) / real (length ts)"

definition trialsBefore :: "Trial list \<Rightarrow> int \<Rightarrow> Trial list" where
  "trialsBefore ts k = filter (\<lambda>t. k - 3 \<le> trial t \<and> trial t < k) ts"

definition trialsAfter :: "Trial list \<Rightarrow> int \<Rightarrow> Trial list" where
  "trialsAfter ts k = filter (\<lambda>t. k \<le> trial t \<and> trial t < k + 3) ts"

definition transitionSkipped :: "Trial list \<Rightarrow> int \<Rightarrow> bool" where
  "transitionSkipped ts k = (trialsBefore ts k = [] \<or> trialsAfter ts k = [])"

definition transitionChange :: "Trial list \<Rightarrow> int \<Rightarrow> real" where
  "transitionChange ts k = \<bar>leftRate (trialsAfter ts k) - leftRate (trialsBefore ts k)\<bar>"

text \<open>
  The adaptation rate as the specification words it: the average over the
  transitions that are not skipped, a skipped one counting neither in the sum nor in
  the divisor.
\<close>

definition specAdaptationRate :: "Trial list \<Rightarrow> real" where
  "specAdaptationRate ts =
     (let kept = filter (\<lambda>k. \<not> transitionSkipped ts k) [8, 31, 41]
      in sum_list (map (transitionChange ts) kept) / real (length kept))"

text \<open>
  A session that was stopped at the prompt after trial 40: left on trials 1 to 7,
  right afterwards.
\<close>

definition stoppedTrial :: "int \<Rightarrow> Trial" where
  "stoppedTrial n = \<lparr> trial = n, choice = (if n \<le> 7 then Left else Right), reward = 2,
     rewardType = Low, reactionTime = 500 \<rparr>"

definition stoppedLog :: "Trial list" where
  "stoppedLog = map stoppedTrial [1..40]"

definition stoppedGame :: Game where
  "stoppedGame = \<lparr> gameState = ContinuePrompt, currentTrial = 40, totalReward_state = 80,
     trials = stoppedLog, lastReward = Some (2, Low), startTime = 0 \<rparr>"

text \<open>
  A game waiting for the choice of trial 35, and draws of which the first is below
  0.1 and the second is not.
\<close>

definition frustrationGame :: Game where
  "frustrationGame = \<lparr> gameState = Playing, currentTrial = 35, totalReward_state = 120,
     trials = [], lastReward = None, startTime = 1000 \<rparr>"

definition exampleDraws :: "nat \<Rightarrow> real" where
  "exampleDraws i = (if i = 0 then 5 / 100 else 1 / 2)"

section \<open>Storage (utils/storage)\<close>

text \<open>
  A \<open>Date\<close> is its time value in milliseconds. The identifier of a challenge, the
  string \<open>challenge-<n>\<close>, is represented by \<open>n\<close>. The counters \<open>streak\<close> and
  \<open>tasksCompleted\<close> only ever grow by one from 0 and are integers. An entry of
  \<open>averageScores\<close> is \<open>None\<close> when the stored number is not finite (JSON stores it
  as null); every task type has an entry.
\<close>

record UserPerformance =
  id_perf :: string
  taskType :: TaskType
  score :: real
  date_perf :: int
  metrics :: TaskMetrics

record DailyChallenge =
  id_ch :: int
  date_ch :: int
  tasks :: "TaskType list"
  completed :: bool
  completedTasks :: "TaskType list"

record UserStats =
  totalScore :: real
  streak :: int
  tasksCompleted :: int
  averageScores :: "TaskType \<Rightarrow> real option"
  lastActivity :: int

text \<open>
  The three keys of the key-value store. A list key that was never written reads as
  the empty list; \<open>USER_STATS\<close> is \<open>None\<close> until it is first written. The store is
  taken to be reliable: the \<open>catch\<close> branches, which only log, are not modelled.
\<close>

record Storage =
  PERFORMANCES :: "UserPerformance list"
  DAILY_CHALLENGES :: "DailyChallenge list"
  USER_STATS :: "UserStats option"

text \<open>
  What a call reads from outside the store: the locale's \<open>toDateString\<close> (a calendar
  day of type \<open>'d\<close> for each instant) and the value of the clock at each place the
  source reads it (\<open>new Date()\<close> or \<open>Date.now()\<close>).
\<close>

record 'd Env =
  toDateString :: "int \<Rightarrow> 'd"
  now_default :: int
  now_today :: int
  now_yesterday :: int
  now_lastActivity :: int
  now_challenge :: int

definition getPerformances :: "Storage \<Rightarrow> UserPerformance list" where
  "getPerformances st = PERFORMANCES st"

definition getPerformancesByTask :: "Storage \<Rightarrow> TaskType \<Rightarrow> UserPerformance list" where
  "getPerformancesByTask st t = filter (\<lambda>p. taskType p = t) (getPerformances st)"

definition getDailyChallenges :: "Storage \<Rightarrow> DailyChallenge list" where
  "getDailyChallenges st = DAILY_CHALLENGES st"

definition saveDailyChallenge :: "Storage \<Rightarrow> DailyChallenge \<Rightarrow> Storage" where
  "saveDailyChallenge st challenge =
     (let existing = getDailyChallenges st;
          updated = filter (\<lambda>c. id_ch c \<noteq> id_ch challenge) existing
      in st \<lparr> DAILY_CHALLENGES := updated @ [challenge] \<rparr>)"

definition getTodaysChallenge :: "'d Env \<Rightarrow> Storage \<Rightarrow> DailyChallenge option" where
  "getTodaysChallenge env st =
     (let challenges = getDailyChallenges st;
          today = toDateString env (now_challenge env)
      in find (\<lambda>c. toDateString env (date_ch c) = today) challenges)"

definition markChallengeTaskComplete :: "'d Env \<Rightarrow> Storage \<Rightarrow> TaskType \<Rightarrow> Storage" where
  "markChallengeTaskComplete env st t =
     (case getTodaysChallenge env st of
        None \<Rightarrow> st
      | Some challenge \<Rightarrow>
          if t \<notin> set (completedTasks challenge) then
            (let pushed = challenge \<lparr> completedTasks := completedTasks challenge @ [t] \<rparr>;
                 flagged = pushed \<lparr> completed :=
                             (length (completedTasks pushed) = length (tasks pushed)) \<rparr>
             in saveDailyChallenge st flagged)
          else st)"

definition defaultUserStats :: "'d Env \<Rightarrow> UserStats" where
  "defaultUserStats env =
     \<lparr> totalScore = 0, streak = 0, tasksCompleted = 0,
       averageScores = (\<lambda>t. Some 0), lastActivity = now_default env \<rparr>"

definition getUserStats :: "'d Env \<Rightarrow> Storage \<Rightarrow> UserStats" where
  "getUserStats env st =
     (case USER_STATS st of None \<Rightarrow> defaultUserStats env | Some stats \<Rightarrow> stats)"

definition updateUserStats :: "'d Env \<Rightarrow> Storage \<Rightarrow> UserPerformance \<Rightarrow> Storage" where
  "updateUserStats env st performance =
     (let stats = getUserStats env st;
          performances = getPerformances st;
          taskPerformances = filter (\<lambda>p. taskType p = taskType performance) performances;
          averageScore =
            divide_js (foldl (\<lambda>sum p. sum + score p) 0 taskPerformances)
              (real (length taskPerformances));
          today = toDateString env (now_today env);
          yesterday = toDateString env (now_yesterday env - 24 * 60 * 60 * 1000);
          lastActivityDate = toDateString env (lastActivity stats);
          newStreak =
            (if lastActivityDate = yesterday then streak stats + 1
             else if lastActivityDate \<noteq> today then 1
             else streak stats);
          updatedStats = stats
            \<lparr> totalScore := totalScore stats + score performance,
              tasksCompleted := tasksCompleted stats + 1,
              streak := newStreak,
              averageScores := (averageScores stats) (taskType performance := averageScore),
              lastActivity := now_lastActivity env \<rparr>;
          st' = st \<lparr> USER_STATS := Some updatedStats \<rparr>
      in markChallengeTaskComplete env st' (taskType performance))"

definition savePerformance :: "'d Env \<Rightarrow> Storage \<Rightarrow> UserPerformance \<Rightarrow> Storage" where
  "savePerformance env st performance =
     (let existing = getPerformances st;
          updated = existing @ [performance];
          st' = st \<lparr> PERFORMANCES := updated \<rparr>
      in updateUserStats env st' performance)"

text \<open>
  The streak rule in the specification's words (section 4.3, step 2), for the calendar
  days the source compares.
\<close>

definition nextStreak :: "'d Env \<Rightarrow> UserStats \<Rightarrow> int" where
  "nextStreak env stats =
     (if toDateString env (lastActivity stats)
           = toDateString env (now_yesterday env - 86400000) then streak stats + 1
      else if toDateString env (lastActivity stats) = toDateString env (now_today env)
      then streak stats
      else 1)"

text \<open>
  The part of the challenge invariant that does not mention membership in \<open>tasks\<close>.
\<close>

definition challengeInv :: "DailyChallenge \<Rightarrow> bool" where
  "challengeInv c =
     (distinct (completedTasks c)
      \<and> (completed c \<longleftrightarrow> length (completedTasks c) = length (tasks c)))"

text \<open>
  \<open>generateDailyChallenge\<close> (app/(tabs)/challenges): \<open>shuffled\<close> is the outcome of
  sorting the seven task types with the random comparator, \<open>now_id\<close> and \<open>now_date\<close>
  are the clock when the identifier and when the date is made.
\<close>

definition allTasks :: "TaskType list" where
  "allTasks = [TappingSpeed, StroopTest, ReactionTime, TowerOfHanoi, SpatialMemory,
               DecisionTask, SoundDiscrimination]"

definition generateDailyChallenge :: "TaskType list \<Rightarrow> int \<Rightarrow> int \<Rightarrow> DailyChallenge" where
  "generateDailyChallenge shuffled now_id now_date =
     (let selectedTasks = take 3 shuffled
      in \<lparr> id_ch = now_id, date_ch = now_date, tasks = selectedTasks, completed = False,
           completedTasks = [] \<rparr>)"

subsection \<open>Concrete surroundings for the examples\<close>

text \<open>
  A UTC locale, a calendar day being represented by its number since the epoch, and
  a call during which the clock does not advance.
\<close>

definition utcDay :: "int \<Rightarrow> int" where
  "utcDay t = t div 86400000"

definition utcEnv :: "int \<Rightarrow> int Env" where
  "utcEnv now = \<lparr> toDateString = utcDay, now_default = now, now_today = now,
     now_yesterday = now, now_lastActivity = now, now_challenge = now \<rparr>"

definition exampleNow :: int where
  "exampleNow = 1700000000000"

definition emptyStorage :: Storage where
  "emptyStorage = \<lparr> PERFORMANCES = [], DAILY_CHALLENGES = [], USER_STATS = None \<rparr>"

definition examplePerformance :: "TaskType \<Rightarrow> real \<Rightarrow> int \<Rightarrow> UserPerformance" where
  "examplePerformance t s now =
     \<lparr> id_perf = ''p'', taskType = t, score = s, date_perf = now, metrics = noMetrics \<rparr>"



text \<open>
  The store after the challenges screen created today's challenge, the shuffle
  having left the task types in their listed order.
\<close>

definition freshStorage :: Storage where
  "freshStorage = saveDailyChallenge emptyStorage (generateDailyChallenge allTasks exampleNow exampleNow)"

section \<open>Scoring: guards, range and shape\<close>

lemma calculateScore_guard:
  assumes "anyFalsy tt m"
  shows "calculateScore fl tt m = Some 0"
  using assms
  by (cases tt)
     (auto simp: anyFalsy_def calculateTappingScore_def calculateStroopScore_def
        calculateReactionTimeScore_def calculateTowerOfHanoiScore_def
        calculateSpatialMemoryScore_def calculateDecisionTaskScore_def
        calculateSoundDiscriminationScore_def)

text \<open>
  Claim C4. For every task type and every metrics bag, if some metric field that the
  task's formula reads is absent or zero, \<open>calculateScore\<close> returns exactly 0 (a number,
  not a failure); this covers all seven task types, whatever the rounding of the
  arithmetic.
\<close>

theorem calculateScore_missing_metric_zero:
  assumes "\<exists>f \<in> set (requiredMetrics tt). falsy (f m)"
  shows "calculateScore fl tt m = Some 0"
  using assms
  by (cases tt)
     (auto simp: calculateTappingScore_def calculateStroopScore_def
        calculateReactionTimeScore_def calculateTowerOfHanoiScore_def
        calculateSpatialMemoryScore_def calculateDecisionTaskScore_def
        calculateSoundDiscriminationScore_def)

text \<open>
  The theorem at a Stroop session without a single wrong answer: the count of
  incorrect answers is 0, so the score is 0.
\<close>

theorem calculateScore_missing_metric_zero_witness:
  "(\<exists>f \<in> set (requiredMetrics StroopTest).
       falsy (f (noMetrics\<lparr>correctAnswers := Some 20, incorrectAnswers := Some 0,
                           averageReactionTime := Some 900\<rparr>)))
   \<and> calculateScore id StroopTest
        (noMetrics\<lparr>correctAnswers := Some 20, incorrectAnswers := Some 0,
                   averageReactionTime := Some 900\<rparr>) = Some 0"
proof -
  let ?m = "noMetrics\<lparr>correctAnswers := Some 20, incorrectAnswers := Some 0,
                       averageReactionTime := Some 900\<rparr>"
  have h: "\<exists>f \<in> set (requiredMetrics StroopTest). falsy (f ?m)"
    by (simp add: falsy_def noMetrics_def)
  from h calculateScore_missing_metric_zero [OF h, of id] show ?thesis by simp
qed

lemma rounding_nonneg: "rounding fl \<Longrightarrow> 0 \<le> x \<Longrightarrow> 0 \<le> fl x"
  unfolding rounding_def by metis

lemma round_clamp:
  "min (Math_round r) 100 = of_int (min \<lfloor>r + 1 / 2\<rfloor> 100)"
  by (simp add: Math_round_def min_def)

lemma round_clamp_range:
  assumes "0 \<le> r"
  shows "0 \<le> min \<lfloor>r + 1 / 2\<rfloor> 100" "min \<lfloor>r + 1 / 2\<rfloor> 100 \<le> 100"
  using assms by (simp_all add: min_def)

lemma specTappingPiecewise_eq: "specTappingPiecewise fl r = tappingScore fl r"
  by (simp add: specTappingPiecewise_def tappingScore_def)


lemma tappingScore_nonneg:
  assumes "rounding fl" "0 \<le> r"
  shows "0 \<le> tappingScore fl r"
proof -
  note nn = rounding_nonneg [OF assms(1)]
  have step: "0 \<le> fl (c + fl (fl (fl (r - a) / 2) * b))"
    if "a \<le> r" "0 \<le> c" "0 \<le> b" for a b c
  proof -
    have "0 \<le> fl (r - a)" using that by (simp add: nn)
    then have "0 \<le> fl (fl (r - a) / 2)" by (simp add: nn)
    then have "0 \<le> fl (fl (fl (r - a) / 2) * b)" using that by (simp add: nn)
    then show ?thesis using that by (simp add: nn)
  qed
  have top: "0 \<le> fl (95 + min 5 (fl (fl (r - 9) * 2)))" if "9 \<le> r"
  proof -
    have "0 \<le> fl (r - 9)" using that by (simp add: nn)
    then have "0 \<le> fl (fl (r - 9) * 2)" by (simp add: nn)
    then show ?thesis by (simp add: nn)
  qed
  have low: "0 \<le> fl (r * 20)" using assms(2) by (simp add: nn)
  show ?thesis
    unfolding tappingScore_def using top low step [of 7 85 10] step [of 5 70 15]
      step [of 3 50 20] step [of 1 20 30]
    by simp
qed

lemma valid_truthy_pos:
  assumes "validMetrics tt m" "\<not> anyFalsy tt m" "f \<in> set (requiredMetrics tt)"
  shows "0 < the (f m)"
proof -
  from assms have "\<not> falsy (f m)" "case f m of None \<Rightarrow> True | Some v \<Rightarrow> 0 \<le> v"
    by (auto simp: validMetrics_def anyFalsy_def list_all_iff list_ex_iff)
  then show ?thesis by (cases "f m") (auto simp: falsy_def)
qed

lemma calculateScore_vanishing:
  assumes "validMetrics tt m" "\<not> anyFalsy tt m" "divisorVanishes fl tt m"
  shows "calculateScore fl tt m = Some 100"
proof -
  note pos = valid_truthy_pos [OF assms(1,2)]
  show ?thesis
  proof (cases tt)
    case TappingSpeed
    have "0 < the (numberOfTaps m)" "0 < the (duration m)"
      using pos by (simp_all add: TappingSpeed)
    with assms(2,3) show ?thesis
      by (simp add: TappingSpeed anyFalsy_def calculateTappingScore_def
            scoreOfInfiniteQuotient_def)
  next
    case StroopTest
    have "0 < the (correctAnswers m)" "0 < the (incorrectAnswers m)"
      using pos by (simp_all add: StroopTest)
    with assms(2,3) show ?thesis
      by (simp add: StroopTest anyFalsy_def calculateStroopScore_def
            scoreOfInfiniteQuotient_def)
  next
    case SoundDiscrimination
    have "0 < the (correctIdentifications m)" "0 < the (incorrectIdentifications m)"
      using pos by (simp_all add: SoundDiscrimination)
    with assms(2,3) show ?thesis
      by (simp add: SoundDiscrimination anyFalsy_def calculateSoundDiscriminationScore_def
            scoreOfInfiniteQuotient_def)
  qed (use assms(3) in simp_all)
qed

lemma calculateScore_truthy:
  assumes "\<not> anyFalsy tt m" "\<not> divisorVanishes fl tt m"
  shows "calculateScore fl tt m = Some (min (Math_round (specRawScore fl tt m)) 100)"
  using assms
  by (cases tt)
     (simp_all add: anyFalsy_def calculateTappingScore_def calculateStroopScore_def
        calculateReactionTimeScore_def calculateTowerOfHanoiScore_def
        calculateSpatialMemoryScore_def calculateDecisionTaskScore_def
        calculateSoundDiscriminationScore_def specTappingPiecewise_eq Let_def)

lemma specRawScore_nonneg:
  assumes "rounding fl" "validMetrics tt m" "\<not> anyFalsy tt m" "\<not> divisorVanishes fl tt m"
  shows "0 \<le> specRawScore fl tt m"
proof -
  note pos = valid_truthy_pos [OF assms(2,3)]
  note nn = rounding_nonneg [OF assms(1)]
  show ?thesis
  proof (cases tt)
    case TappingSpeed
    have "0 < the (numberOfTaps m)" "0 < the (duration m)"
      using pos by (simp_all add: TappingSpeed)
    moreover from this have "0 \<le> fl (the (duration m) / 1000)" by (simp add: nn)
    ultimately have "0 \<le> fl (the (numberOfTaps m) / fl (the (duration m) / 1000))"
      by (simp add: nn)
    then show ?thesis
      by (simp add: TappingSpeed specTappingPiecewise_eq tappingScore_nonneg [OF assms(1)])
  next
    case StroopTest
    have c: "0 < the (correctAnswers m)" "0 < the (incorrectAnswers m)"
      using pos by (simp_all add: StroopTest)
    then have "0 \<le> fl (the (correctAnswers m) + the (incorrectAnswers m))"
      by (simp add: nn)
    with c have "0 \<le> fl (the (correctAnswers m)
                    / fl (the (correctAnswers m) + the (incorrectAnswers m)))"
      by (simp add: nn)
    then have "0 \<le> fl (fl (the (correctAnswers m)
                    / fl (the (correctAnswers m) + the (incorrectAnswers m))) * 70)"
      by (simp add: nn)
    then show ?thesis
      unfolding StroopTest specRawScore.simps by (simp add: nn add_nonneg_nonneg)
  next
    case ReactionTime
    then show ?thesis by simp
  next
    case TowerOfHanoi
    have "0 < the (minMoves m)" "0 < the (moves m)"
      using pos by (simp_all add: TowerOfHanoi)
    then have "0 \<le> fl (the (minMoves m) / the (moves m))" by (simp add: nn)
    then have "0 \<le> fl (fl (the (minMoves m) / the (moves m)) * 60)" by (simp add: nn)
    then show ?thesis
      unfolding TowerOfHanoi specRawScore.simps by (simp add: nn add_nonneg_nonneg)
  next
    case SpatialMemory
    have p: "0 < the (correctMatches m)" "0 < the (totalAttempts m)" "0 < the (sequenceLength m)"
      using pos by (simp_all add: SpatialMemory)
    then have "0 \<le> fl (the (correctMatches m) / the (totalAttempts m))" by (simp add: nn)
    then have "0 \<le> fl (fl (the (correctMatches m) / the (totalAttempts m)) * 70)"
      by (simp add: nn)
    moreover have "0 \<le> fl (the (sequenceLength m) * 5)" using p by (simp add: nn)
    ultimately show ?thesis
      unfolding SpatialMemory specRawScore.simps by (simp add: nn add_nonneg_nonneg)
  next
    case DecisionTask
    have p: "0 < the (totalReward m)" "0 < the (adaptationRate m)"
         "0 < the (riskTakingScore m)" "0 < the (learningScore m)"
      using pos by (simp_all add: DecisionTask)
    have "0 \<le> fl (the (totalReward m) / 10)" using p by (simp add: nn)
    then have a: "0 \<le> min (fl (the (totalReward m) / 10)) 40" by simp
    have b: "0 \<le> fl (the (adaptationRate m) * 30)" using p by (simp add: nn)
    have c: "0 \<le> fl (the (riskTakingScore m) * 15)" using p by (simp add: nn)
    have d: "0 \<le> fl (the (learningScore m) * 15)" using p by (simp add: nn)
    show ?thesis
      unfolding DecisionTask specRawScore.simps
      using a b c d by (simp add: nn add_nonneg_nonneg)
  next
    case SoundDiscrimination
    have c: "0 < the (correctIdentifications m)" "0 < the (incorrectIdentifications m)"
      using pos by (simp_all add: SoundDiscrimination)
    then have "0 \<le> fl (the (correctIdentifications m) + the (incorrectIdentifications m))"
      by (simp add: nn)
    with c have "0 \<le> fl (the (correctIdentifications m)
                    / fl (the (correctIdentifications m) + the (incorrectIdentifications m)))"
      by (simp add: nn)
    then have "0 \<le> fl (fl (the (correctIdentifications m)
                    / fl (the (correctIdentifications m) + the (incorrectIdentifications m))) * 80)"
      by (simp add: nn)
    then show ?thesis
      unfolding SoundDiscrimination specRawScore.simps by (simp add: nn add_nonneg_nonneg)
  qed
qed

text \<open>
  Claim C5. For every task type and every valid metrics bag, \<open>calculateScore\<close>
  returns an integer between 0 and 100, in every arithmetic whose rounding is
  monotone and keeps 0. The returned number is 0 when a metric the formula reads is
  absent or zero; it is 100 when the divisor of the rate or accuracy rounds to zero
  (the raw value is then plus infinity); and otherwise it is the integer nearest to
  the specification's raw value, halves going up, clamped above by 100. That raw
  value is never negative, so the missing lower clamp is not needed.
\<close>

theorem calculateScore_valid_range:
  assumes "rounding fl" "validMetrics tt m"
  shows "(\<exists>k::int. calculateScore fl tt m = Some (of_int k) \<and> 0 \<le> k \<and> k \<le> 100)
       \<and> calculateScore fl tt m =
           (if anyFalsy tt m then Some 0
            else if divisorVanishes fl tt m then Some 100
            else Some (of_int (min \<lfloor>specRawScore fl tt m + 1 / 2\<rfloor> 100)))
       \<and> (\<not> anyFalsy tt m \<and> \<not> divisorVanishes fl tt m \<longrightarrow> 0 \<le> specRawScore fl tt m)"
proof -
  consider (guard) "anyFalsy tt m"
    | (vanish) "\<not> anyFalsy tt m" "divisorVanishes fl tt m"
    | (raw) "\<not> anyFalsy tt m" "\<not> divisorVanishes fl tt m"
    by blast
  then show ?thesis
  proof cases
    case guard
    then have eq: "calculateScore fl tt m = Some (of_int 0)"
      by (simp add: calculateScore_guard)
    then have "\<exists>k::int. calculateScore fl tt m = Some (of_int k) \<and> 0 \<le> k \<and> k \<le> 100"
      by (intro exI [of _ 0]) simp
    with guard eq show ?thesis by simp
  next
    case vanish
    then have eq: "calculateScore fl tt m = Some (of_int 100)"
      using calculateScore_vanishing [OF assms(2)] by simp
    then have "\<exists>k::int. calculateScore fl tt m = Some (of_int k) \<and> 0 \<le> k \<and> k \<le> 100"
      by (intro exI [of _ 100]) simp
    with vanish eq show ?thesis by simp
  next
    case raw
    let ?k = "min \<lfloor>specRawScore fl tt m + 1 / 2\<rfloor> 100"
    have nn: "0 \<le> specRawScore fl tt m"
      using specRawScore_nonneg [OF assms raw] .
    have eq: "calculateScore fl tt m = Some (of_int ?k)"
      using calculateScore_truthy [OF raw] by (simp add: round_clamp)
    have "0 \<le> ?k" "?k \<le> 100" using round_clamp_range [OF nn] .
    with eq have "\<exists>k::int. calculateScore fl tt m = Some (of_int k) \<and> 0 \<le> k \<and> k \<le> 100"
      by blast
    with raw eq nn show ?thesis by simp
  qed
qed

text \<open>
  The theorem in exact arithmetic at an average reaction time of 255 ms: the raw
  value 74.5 is rounded up to 75.
\<close>

theorem calculateScore_valid_range_witness:
  "rounding id
   \<and> validMetrics ReactionTime (noMetrics\<lparr>averageReactionTime := Some 255\<rparr>)
   \<and> calculateScore id ReactionTime (noMetrics\<lparr>averageReactionTime := Some 255\<rparr>) = Some 75"
proof -
  let ?m = "noMetrics\<lparr>averageReactionTime := Some 255\<rparr>"
  have r: "rounding id" by (simp add: rounding_def)
  have v: "validMetrics ReactionTime ?m" by (simp add: validMetrics_def noMetrics_def)
  have nf: "\<not> anyFalsy ReactionTime ?m" by (simp add: anyFalsy_def falsy_def noMetrics_def)
  have raw: "specRawScore id ReactionTime ?m = 149 / 2" by (simp add: noMetrics_def)
  from calculateScore_valid_range [OF r v] nf raw r v show ?thesis by simp
qed









lemma foldl_plus_sum_list: "foldl (\<lambda>sum score. sum + score) a xs = (a::real) + sum_list xs"
  by (induction xs arbitrary: a) simp_all

text \<open>
  Claim C7. For every mapping of task types to scores, \<open>calculateOverallScore\<close> is 0
  when no entry is strictly positive, and otherwise the integer nearest (halves going
  up) to the mean of the strictly positive entries: to their sum divided by their
  number as the arithmetic computes it and, in exact arithmetic, to their arithmetic
  mean. The empty mapping gives 0, and the mapping with the entries a: 0 and b: 80
  gives 80 in every arithmetic that represents 80.
\<close>

theorem calculateOverallScore_mean_positive:
  "calculateOverallScore fl scores =
     (let positive = filter (\<lambda>s. 0 < s) (map snd scores)
      in if positive = [] then 0
         else of_int \<lfloor>fl (foldl (\<lambda>sum s. fl (sum + s)) 0 positive / real (length positive))
                       + 1 / 2\<rfloor>)
   \<and> calculateOverallScore id scores =
     (let positive = filter (\<lambda>s. 0 < s) (map snd scores)
      in if positive = [] then 0
         else of_int \<lfloor>sum_list positive / real (length positive) + 1 / 2\<rfloor>)
   \<and> calculateOverallScore fl ([] :: (string \<times> real) list) = 0
   \<and> (fl 80 = 80 \<longrightarrow> calculateOverallScore fl [(''a'', 0), (''b'', 80)] = 80)"
  by (simp add: calculateOverallScore_def Object_values_def foldl_plus_sum_list Let_def
        Math_round_def)

text \<open>The theorem in exact arithmetic, which represents 80.\<close>

theorem calculateOverallScore_mean_positive_witness:
  "id (80::real) = 80 \<and> calculateOverallScore id [(''a'', 0), (''b'', 80)] = 80"
proof -
  have h: "id (80::real) = 80" by simp
  from calculateOverallScore_mean_positive [of id "[]"] h show ?thesis by blast
qed

section \<open>Decision task: rewards and adaptation rate\<close>

lemma getCurrentPhase_cases:
  "1 \<le> t \<Longrightarrow> t \<le> 7 \<Longrightarrow> getCurrentPhase t = gamePhases ! 0"
  "8 \<le> t \<Longrightarrow> t \<le> 30 \<Longrightarrow> getCurrentPhase t = gamePhases ! 1"
  "31 \<le> t \<Longrightarrow> t \<le> 40 \<Longrightarrow> getCurrentPhase t = gamePhases ! 2"
  "41 \<le> t \<Longrightarrow> t \<le> 50 \<Longrightarrow> getCurrentPhase t = gamePhases ! 3"
  by (simp_all add: getCurrentPhase_def gamePhases_def)

lemma resolveReward_spec:
  assumes "1 \<le> t" "t \<le> 50"
  shows "resolveReward t c rnd = specReward t c rnd"
proof -
  note defs = resolveReward_def specReward_def specProbability_def getCurrentPhase_cases
    gamePhases_def highReward_def lowReward_def Let_def
  consider "t \<le> 7" | "8 \<le> t" "t \<le> 30" | "31 \<le> t" "t \<le> 40" | "41 \<le> t"
    by linarith
  then show ?thesis
  proof cases
    case 1
    with assms show ?thesis by (simp add: defs)
  next
    case 2
    with assms show ?thesis by (simp add: defs)
  next
    case 3
    with assms show ?thesis by (simp add: defs)
  next
    case 4
    with assms show ?thesis by (simp add: defs)
  qed
qed

text \<open>
  Claim C8. For every trial number from 1 to 50, every door and all random draws,
  a choice made while the game is playing appends one trial whose reward follows the
  specification's rule: outside trials 31 to 40 the first draw below the phase's
  probability for the chosen door gives the high reward 10 and otherwise the low
  reward 2; inside trials 31 to 40 a first draw below 0.1 lets a second draw against
  the phase's probability 0.1 choose between 10 and 2, and otherwise the reward is 0
  of type none.
\<close>

theorem handleDoorChoice_reward_resolution:
  assumes "gameState g = Playing" "1 \<le> currentTrial g" "currentTrial g \<le> 50"
  shows "trials (handleDoorChoice g c rnd now) =
           trials g @ [\<lparr> trial = currentTrial g, choice = c,
                          reward = fst (specReward (currentTrial g) c rnd),
                          rewardType = snd (specReward (currentTrial g) c rnd),
                          reactionTime = now - startTime g \<rparr>]"
  using assms
  by (simp add: handleDoorChoice_def resolveReward_spec split: prod.splits)

text \<open>
  The theorem at trial 35 with the draws 0.05 and 0.5: a reward occurs, and the
  second draw makes it the low one.
\<close>

theorem handleDoorChoice_reward_resolution_witness:
  "gameState frustrationGame = Playing \<and> 1 \<le> currentTrial frustrationGame
   \<and> currentTrial frustrationGame \<le> 50
   \<and> trials (handleDoorChoice frustrationGame Left exampleDraws 1500) =
       [\<lparr> trial = 35, choice = Left, reward = 2, rewardType = Low, reactionTime = 500 \<rparr>]"
proof -
  have h: "gameState frustrationGame = Playing" "1 \<le> currentTrial frustrationGame"
    "currentTrial frustrationGame \<le> 50"
    by (simp_all add: frustrationGame_def)
  have r: "specReward 35 Left exampleDraws = (2, Low)"
    by (simp add: specReward_def specProbability_def exampleDraws_def)
  from handleDoorChoice_reward_resolution [OF h, of Left exampleDraws 1500] h r
  show ?thesis by (simp add: frustrationGame_def)
qed

lemma adaptationStep_eq:
  "adaptationStep ts acc k =
     acc + (if transitionSkipped ts k then 0 else transitionChange ts k)"
  by (simp add: adaptationStep_def transitionSkipped_def transitionChange_def leftRate_def
        trialsBefore_def trialsAfter_def Let_def conj_commute)

lemma stoppedLog_windows:
  "trialsBefore stoppedLog 8 = map stoppedTrial [5, 6, 7]"
  "trialsAfter stoppedLog 8 = map stoppedTrial [8, 9, 10]"
  "trialsBefore stoppedLog 31 = map stoppedTrial [28, 29, 30]"
  "trialsAfter stoppedLog 31 = map stoppedTrial [31, 32, 33]"
  "trialsBefore stoppedLog 41 = map stoppedTrial [38, 39, 40]"
  "trialsAfter stoppedLog 41 = []"
proof -
  have u: "[1..40::int] = 1 # [2..40]" by (simp add: upto_rec1)
  show "trialsBefore stoppedLog 8 = map stoppedTrial [5, 6, 7]"
    "trialsAfter stoppedLog 8 = map stoppedTrial [8, 9, 10]"
    "trialsBefore stoppedLog 31 = map stoppedTrial [28, 29, 30]"
    "trialsAfter stoppedLog 31 = map stoppedTrial [31, 32, 33]"
    "trialsBefore stoppedLog 41 = map stoppedTrial [38, 39, 40]"
    "trialsAfter stoppedLog 41 = []"
    by (simp_all add: trialsBefore_def trialsAfter_def stoppedLog_def u stoppedTrial_def)
qed

lemma stoppedLog_changes:
  "transitionSkipped stoppedLog 8 = False" "transitionChange stoppedLog 8 = 1"
  "transitionSkipped stoppedLog 31 = False" "transitionChange stoppedLog 31 = 0"
  "transitionSkipped stoppedLog 41 = True"
  by (simp_all add: transitionSkipped_def transitionChange_def stoppedLog_windows leftRate_def
        stoppedTrial_def)

text \<open>
  Claim C3, as the source has it. For every trial log, the adaptation rate is the
  sum, over the transitions 8, 31 and 41 that have a recorded trial on both sides, of
  the absolute difference between the fractions of left choices in the three trials
  from the transition on and in the three trials before it, divided by 3, the fixed
  number of transitions: a skipped transition adds nothing to the sum and still
  counts in the divisor.
\<close>

theorem adaptationRate_fixed_divisor:
  "adaptationRate (calculateMetrics g) =
     Some ((\<Sum>k\<leftarrow>[8, 31, 41]. if transitionSkipped (trials g) k then 0
                               else transitionChange (trials g) k) / 3)"
  by (simp add: calculateMetrics_def Let_def noMetrics_def phaseTransitions_def adaptationStep_eq)

text \<open>
  Claim C3, as stated, fails for a session stopped after trial 40 (left on trials 1
  to 7, right afterwards). The transition at 41 is skipped; the changes at 8 and 31
  are 1 and 0. The source returns 1/3, the average over the two transitions that are
  not skipped is 1/2.
\<close>

theorem adaptationRate_skipped_counterexample:
  "adaptationRate (calculateMetrics stoppedGame) = Some (1 / 3)
   \<and> specAdaptationRate (trials stoppedGame) = 1 / 2
   \<and> adaptationRate (calculateMetrics stoppedGame)
        \<noteq> Some (specAdaptationRate (trials stoppedGame))"
proof -
  have t: "trials stoppedGame = stoppedLog" by (simp add: stoppedGame_def)
  have a: "adaptationRate (calculateMetrics stoppedGame) = Some (1 / 3)"
    by (simp add: calculateMetrics_def Let_def noMetrics_def phaseTransitions_def
          adaptationStep_eq t stoppedLog_changes)
  have b: "specAdaptationRate (trials stoppedGame) = 1 / 2"
    by (simp add: specAdaptationRate_def t stoppedLog_changes)
  from a b show ?thesis by simp
qed

section \<open>Storage: statistics and the daily challenge\<close>

lemma foldl_score_sum_list:
  "foldl (\<lambda>sum p. sum + score p) a ps = a + sum_list (map score ps)"
  by (induction ps arbitrary: a) simp_all

lemma markChallengeTaskComplete_frame:
  "USER_STATS (markChallengeTaskComplete env st t) = USER_STATS st"
  "PERFORMANCES (markChallengeTaskComplete env st t) = PERFORMANCES st"
  by (simp_all add: markChallengeTaskComplete_def saveDailyChallenge_def Let_def
        split: option.splits)

text \<open>The statistics that \<open>updateUserStats\<close> stores, in closed form.\<close>

lemma updateUserStats_stats:
  "USER_STATS (updateUserStats env st p) =
     Some ((getUserStats env st)
       \<lparr> totalScore := totalScore (getUserStats env st) + score p,
         tasksCompleted := tasksCompleted (getUserStats env st) + 1,
         streak := nextStreak env (getUserStats env st),
         averageScores := (averageScores (getUserStats env st))
           (taskType p := divide_js (sum_list (map score (getPerformancesByTask st (taskType p))))
                            (real (length (getPerformancesByTask st (taskType p))))),
         lastActivity := now_lastActivity env \<rparr>)"
  by (simp add: updateUserStats_def Let_def markChallengeTaskComplete_frame nextStreak_def
        foldl_score_sum_list getPerformancesByTask_def)

lemma updateUserStats_performances:
  "PERFORMANCES (updateUserStats env st p) = PERFORMANCES st"
  by (simp add: updateUserStats_def Let_def markChallengeTaskComplete_frame)

text \<open>
  For statistics read from the store the streak follows the rule: one more after
  activity on yesterday's calendar day, unchanged after activity today, 1 otherwise.
\<close>

lemma updateUserStats_streak:
  "map_option streak (USER_STATS (updateUserStats env st p))
     = Some (nextStreak env (getUserStats env st))"
  by (simp add: updateUserStats_stats)

text \<open>
  Claim C1. The streak after a save is the old streak plus 1 when the previous
  activity was on yesterday's calendar day, the old streak when it was today, and 1
  in every other case, no prior activity included. The source breaks the last case:
  with nothing stored, \<open>getUserStats\<close> returns default statistics whose \<open>lastActivity\<close>
  is the current instant, so the very first save finds the previous activity to be
  today and leaves the streak at 0.
\<close>

theorem first_save_leaves_streak_zero:
  "map_option streak
     (USER_STATS (savePerformance (utcEnv exampleNow) emptyStorage
        (examplePerformance TappingSpeed 72 exampleNow))) = Some 0"
  by (simp add: savePerformance_def Let_def updateUserStats_stats getUserStats_def
        emptyStorage_def defaultUserStats_def utcEnv_def utcDay_def nextStreak_def
        getPerformances_def exampleNow_def)

text \<open>
  Claim C9. After a performance is saved, it is the last entry of the stored history
  and the stored average for its task type is the arithmetic mean of the scores of
  all stored performances of that task type, the new one included. This holds for
  every prior history, empty or not.
\<close>

theorem savePerformance_average:
  "PERFORMANCES (savePerformance env st p) = PERFORMANCES st @ [p]
   \<and> (\<exists>stats. USER_STATS (savePerformance env st p) = Some stats
        \<and> averageScores stats (taskType p) =
            Some (sum_list (map score (getPerformancesByTask (savePerformance env st p) (taskType p)))
                  / real (length (getPerformancesByTask (savePerformance env st p) (taskType p)))))"
  by (simp add: savePerformance_def Let_def updateUserStats_stats updateUserStats_performances
        getPerformancesByTask_def getPerformances_def divide_js_def)



lemma getTodaysChallenge_mem:
  "getTodaysChallenge env st = Some c \<Longrightarrow> c \<in> set (DAILY_CHALLENGES st)"
  by (auto simp: getTodaysChallenge_def getDailyChallenges_def Let_def find_Some_iff)

text \<open>
  The part of the challenge invariant that the source keeps: completed tasks stay
  free of duplicates, and the flag says that the two lists have the same length.
\<close>

lemma markChallengeTaskComplete_inv:
  assumes "\<forall>c \<in> set (DAILY_CHALLENGES st). challengeInv c"
  shows "\<forall>c \<in> set (DAILY_CHALLENGES (markChallengeTaskComplete env st t)). challengeInv c"
proof (cases "getTodaysChallenge env st")
  case None
  with assms show ?thesis by (simp add: markChallengeTaskComplete_def)
next
  case (Some ch)
  then have "challengeInv ch" using assms getTodaysChallenge_mem by blast
  then have "t \<notin> set (completedTasks ch) \<Longrightarrow>
     challengeInv (ch \<lparr> completedTasks := completedTasks ch @ [t],
                        completed := (length (completedTasks ch @ [t]) = length (tasks ch)) \<rparr>)"
    by (simp add: challengeInv_def)
  with assms Some show ?thesis
    by (auto simp: markChallengeTaskComplete_def saveDailyChallenge_def getDailyChallenges_def
          Let_def)
qed

lemma updateUserStats_challenges:
  "DAILY_CHALLENGES (updateUserStats env st p)
     = DAILY_CHALLENGES (markChallengeTaskComplete env st (taskType p))"
  by (simp add: updateUserStats_def Let_def markChallengeTaskComplete_def
        getTodaysChallenge_def getDailyChallenges_def saveDailyChallenge_def
        split: option.splits)

lemma savePerformance_challenges:
  "DAILY_CHALLENGES (savePerformance env st p)
     = DAILY_CHALLENGES (markChallengeTaskComplete env st (taskType p))"
  by (simp add: savePerformance_def Let_def updateUserStats_challenges
        markChallengeTaskComplete_def
        getTodaysChallenge_def getDailyChallenges_def saveDailyChallenge_def
        split: option.splits)

lemma freshStorage_challenges:
  "DAILY_CHALLENGES freshStorage =
     [\<lparr> id_ch = exampleNow, date_ch = exampleNow,
         tasks = [TappingSpeed, StroopTest, ReactionTime], completed = False,
         completedTasks = [] \<rparr>]"
  by (simp add: freshStorage_def saveDailyChallenge_def generateDailyChallenge_def allTasks_def
        emptyStorage_def getDailyChallenges_def)

text \<open>
  Claim C2. Every challenge reached from a fresh one by completing tasks should have
  its completed tasks among its tasks, without duplicates, and be flagged completed
  exactly when both lists have the same length; a performance of a task type outside
  the challenge should leave the completed tasks alone. The source does not test
  membership in \<open>tasks\<close>: today's challenge with the tasks tapping speed, Stroop test
  and reaction time records a saved Tower of Hanoi performance as completed, and
  after two more foreign task types it is flagged completed with none of its own
  tasks done.
\<close>

theorem foreign_task_marks_challenge:
  "DAILY_CHALLENGES (savePerformance (utcEnv exampleNow) freshStorage
       (examplePerformance TowerOfHanoi 50 exampleNow)) =
     [\<lparr> id_ch = exampleNow, date_ch = exampleNow,
         tasks = [TappingSpeed, StroopTest, ReactionTime], completed = False,
         completedTasks = [TowerOfHanoi] \<rparr>]
   \<and> DAILY_CHALLENGES
       (savePerformance (utcEnv exampleNow)
         (savePerformance (utcEnv exampleNow)
           (savePerformance (utcEnv exampleNow) freshStorage
              (examplePerformance TowerOfHanoi 50 exampleNow))
           (examplePerformance SpatialMemory 50 exampleNow))
         (examplePerformance DecisionTask 50 exampleNow)) =
     [\<lparr> id_ch = exampleNow, date_ch = exampleNow,
         tasks = [TappingSpeed, StroopTest, ReactionTime], completed = True,
         completedTasks = [TowerOfHanoi, SpatialMemory, DecisionTask] \<rparr>]"
  by (simp add: savePerformance_challenges freshStorage_challenges markChallengeTaskComplete_def
        getTodaysChallenge_def getDailyChallenges_def saveDailyChallenge_def Let_def
        utcEnv_def utcDay_def examplePerformance_def)

end
